theory Spec2Isabelle
  imports Complex_Main "HOL-Library.Word"
begin

unbundle bit_operations_syntax

section \<open>MultiCompass: data model\<close>

text \<open>
  A value of the C++ type \<^verbatim>\<open>float\<close> is modelled by the real number it denotes: every
  finite float is a real number, and comparison and assignment of floats are exact.
  Calibration only compares and copies, so nothing is idealised there. Arithmetic on
  floats is modelled twice. The idealised functions \<open>scaleData\<close> and \<open>calculateHeading\<close>
  compute in exact real arithmetic (no rounding, no infinities, no NaN); they agree
  with the target wherever its operations are exact, and a division whose divisor is
  zero is written out as \<open>None\<close>. The functions of the section on binary arithmetic
  round every operation as the target does (IEEE 754, round to nearest, ties to even).

  \<^verbatim>\<open>long long lastCalibration\<close> and \<^verbatim>\<open>int calibrationPeriod\<close> are modelled by
  \<^typ>\<open>int\<close>; \<^verbatim>\<open>millis()\<close> returns an \<^verbatim>\<open>unsigned long\<close> of 32 bits, read
  with \<^const>\<open>uint\<close> when it is converted to \<^verbatim>\<open>long long\<close> (the conversion is
  value preserving, and the difference of a 32-bit reading and a stored reading or zero
  cannot overflow 64 bits).
\<close>

record CompassData =
  rawX :: real
  rawY :: real
  rawZ :: real
  scaledX :: real
  scaledY :: real
  scaledZ :: real
  heading :: real

record CompassSetting =
  minX :: real
  minY :: real
  minZ :: real
  maxX :: real
  maxY :: real
  maxZ :: real
  declination :: real
  lastCalibration :: int

text \<open>
  The field \<^verbatim>\<open>CompassSetting::heading\<close> (the declination offset added to every
  heading) is named \<open>declination\<close> here, because a record field name is a constant and
  \<open>heading\<close> is already the field of \<^typ>\<open>CompassData\<close>.

  The pointer \<^verbatim>\<open>mywire\<close> is not a field of the model: the bus it points to is passed
  to the register operations as an argument.
\<close>

record MultiCompass =
  settings :: CompassSetting
  adress :: "8 word"

record MultiCompassHMC5883L = MultiCompass +
  calibrationPeriod :: int

definition HMC5883L_ADDRESS :: "8 word" where
  "HMC5883L_ADDRESS = 0x1E"

text \<open>
  A constructor runs on the storage of the object: its argument is the object as it is
  before construction. Fields that the constructor does not assign
  (\<^verbatim>\<open>lastCalibration\<close>, and \<^verbatim>\<open>adress\<close> in the base class) keep whatever the
  storage held. The derived constructor runs the base constructor, then the default
  member initialiser of \<^verbatim>\<open>calibrationPeriod\<close>, then its body.
\<close>

definition MultiCompass_ctor :: "'a MultiCompass_scheme \<Rightarrow> 'a MultiCompass_scheme" where
  "MultiCompass_ctor this =
     this\<lparr>settings := (settings this)
       \<lparr>declination := 0,
        minX := 100000, minY := 100000, minZ := 100000,
        maxX := - 100000, maxY := - 100000, maxZ := - 100000\<rparr>\<rparr>"

definition MultiCompassHMC5883L_ctor :: "MultiCompassHMC5883L \<Rightarrow> MultiCompassHMC5883L" where
  "MultiCompassHMC5883L_ctor this =
     (MultiCompass_ctor this)\<lparr>calibrationPeriod := 1000, adress := HMC5883L_ADDRESS + 1\<rparr>"

definition setDeclinationAngle :: "real \<Rightarrow> 'a MultiCompass_scheme \<Rightarrow> 'a MultiCompass_scheme" where
  "setDeclinationAngle declinationAngle this =
     this\<lparr>settings := (settings this)\<lparr>declination := declinationAngle\<rparr>\<rparr>"

definition setCalibration :: "CompassSetting \<Rightarrow> 'a MultiCompass_scheme \<Rightarrow> 'a MultiCompass_scheme" where
  "setCalibration setting this =
     this\<lparr>settings := (settings this)
       \<lparr>minX := minX setting, minY := minY setting, minZ := minZ setting,
        maxX := maxX setting, maxY := maxY setting, maxZ := maxZ setting,
        declination := declination setting,
        lastCalibration := 0\<rparr>\<rparr>"

section \<open>Calibration\<close>

text \<open>
  \<^verbatim>\<open>MultiCompassHMC5883L::calibration\<close> has seven call sites of \<^verbatim>\<open>millis()\<close>, each
  executed at most once per call and in program order: one in each of the six updates
  and one in the final comparison. The argument \<open>millis\<close> gives the reading returned at
  call site \<open>0\<close> to \<open>6\<close>, so the clock may advance during the call.
\<close>

definition calibration ::
  "(nat \<Rightarrow> 32 word) \<Rightarrow> CompassData \<Rightarrow> MultiCompassHMC5883L \<Rightarrow> bool \<times> MultiCompassHMC5883L" where
  "calibration millis data this =
     (let s0 = settings this;
          s1 = (if rawX data < minX s0
                then s0\<lparr>minX := rawX data, lastCalibration := uint (millis 0)\<rparr> else s0);
          s2 = (if rawY data < minY s1
                then s1\<lparr>minY := rawY data, lastCalibration := uint (millis 1)\<rparr> else s1);
          s3 = (if rawZ data < minZ s2
                then s2\<lparr>minZ := rawZ data, lastCalibration := uint (millis 2)\<rparr> else s2);
          s4 = (if rawX data > maxX s3
                then s3\<lparr>maxX := rawX data, lastCalibration := uint (millis 3)\<rparr> else s3);
          s5 = (if rawY data > maxY s4
                then s4\<lparr>maxY := rawY data, lastCalibration := uint (millis 4)\<rparr> else s4);
          s6 = (if rawZ data > maxZ s5
                then s5\<lparr>maxZ := rawZ data, lastCalibration := uint (millis 5)\<rparr> else s5)
      in (uint (millis 6) - lastCalibration s6 > calibrationPeriod this,
          this\<lparr>settings := s6\<rparr>))"

text \<open>
  The caller's polling loop (\<^verbatim>\<open>loop()\<close> of the example sketch) feeds one sample per
  call; a run is the list of the calls' clock readings and samples, in order.
\<close>

fun calibration_run ::
  "((nat \<Rightarrow> 32 word) \<times> CompassData) list \<Rightarrow> MultiCompassHMC5883L \<Rightarrow> MultiCompassHMC5883L" where
  "calibration_run [] this = this"
| "calibration_run ((millis, data) # cs) this =
     calibration_run cs (snd (calibration millis data this))"

section \<open>Reading back the calibration\<close>

text \<open>
  The source defines \<^verbatim>\<open>getCalibration\<close> as a free function, not as the member
  \<^verbatim>\<open>MultiCompass::getCalibration\<close> that the header declares: it has no \<^verbatim>\<open>this\<close>,
  and inside it the name \<^verbatim>\<open>settings\<close> is the pointer parameter. The call
  \<^verbatim>\<open>memcpy(settings, &settings, sizeof(settings))\<close> therefore copies the bytes of the
  pointer itself to the start of the caller's record. The model works on object
  representations: \<open>ptr\<close> is the byte image of the pointer parameter (its length is
  \<^verbatim>\<open>sizeof(settings)\<close>) and \<open>obj\<close> the byte image of the record it points to. The
  compass is not an argument, as it is none of the source function.
\<close>

type_synonym byte = "8 word"

definition memcpy :: "byte list \<Rightarrow> byte list \<Rightarrow> nat \<Rightarrow> byte list" where
  "memcpy dest src n = take n src @ drop n dest"

definition getCalibration :: "byte list \<Rightarrow> byte list \<Rightarrow> byte list" where
  "getCalibration ptr obj = memcpy obj ptr (length ptr)"

section \<open>Scaling\<close>


section \<open>Heading\<close>

text \<open>
  \<^verbatim>\<open>atan2f\<close> of the C library on real numbers: the angle of the point \<open>(x, y)\<close> in
  \<open>(-\<pi>, \<pi>]\<close>, and \<open>0\<close> at the origin. The real numbers have one zero. The C function
  tells \<open>-0.0\<close> from \<open>+0.0\<close> in its first argument: \<^verbatim>\<open>atan2f(-0.0, x)\<close> is \<open>-\<pi>\<close> for
  negative \<open>x\<close>, where this function gives \<open>\<pi>\<close>. In \<^verbatim>\<open>calculateHeading\<close> a
  negative zero arises when a negative weight multiplies a scaled axis that is zero;
  the statements about negative weights below are made for nonzero axes.
\<close>

definition atan2f :: "real \<Rightarrow> real \<Rightarrow> real" where
  "atan2f y x =
     (if 0 < x then arctan (y / x)
      else if x < 0 then (if 0 \<le> y then arctan (y / x) + pi else arctan (y / x) - pi)
      else if 0 < y then pi / 2
      else if y < 0 then - (pi / 2)
      else 0)"

text \<open>The Arduino macro \<^verbatim>\<open>PI\<close>, a decimal literal of type \<^verbatim>\<open>double\<close>.\<close>

definition PI :: real where
  "PI = 3.1415926535897932384626433832795"


text \<open>
  The value of \<^verbatim>\<open>data->heading\<close> after the declination has been added and before it
  is normalised (the source's line \<^verbatim>\<open>data->heading += settings.heading\<close>).
\<close>

definition heading_sum ::
  "CompassData \<Rightarrow> int \<Rightarrow> int \<Rightarrow> int \<Rightarrow> 'a MultiCompass_scheme \<Rightarrow> real" where
  "heading_sum data x y z this =
     (let (axis1, axis2) =
            (if x \<noteq> 0 then (scaledY data * real_of_int x, scaledZ data * real_of_int x)
             else if y \<noteq> 0 then (scaledX data * real_of_int y, scaledZ data * real_of_int y)
             else if z \<noteq> 0 then (scaledX data * real_of_int z, scaledY data * real_of_int z)
             else (0, 0))
      in atan2f axis2 axis1 + declination (settings this))"

section \<open>Binary floating-point arithmetic\<close>

text \<open>
  Rounding to nearest with ties to even, to a format with \<open>p\<close> significant bits whose
  smallest positive number is \<open>2 powi emin\<close>. \<open>rne q\<close> is the integer nearest to \<open>q\<close>,
  the even one at a tie. \<open>fl p emin x\<close> rounds \<open>x\<close> to a multiple of its unit in the last
  place, with the exponent unbounded above. The IEEE result of an operation is this
  rounding of the exact result when the rounded value is below the overflow threshold,
  and an infinity otherwise. \<^verbatim>\<open>float\<close> is binary32 on every Arduino target;
  \<^verbatim>\<open>double\<close> is binary64, or binary32 on AVR.
\<close>

definition rne :: "real \<Rightarrow> int" where
  "rne q =
     (let n = \<lfloor>q\<rfloor>
      in if q - of_int n < 1 / 2 then n
         else if 1 / 2 < q - of_int n then n + 1
         else if even n then n else n + 1)"

definition ulp_exponent :: "int \<Rightarrow> int \<Rightarrow> real \<Rightarrow> int" where
  "ulp_exponent p emin x = max emin (\<lfloor>log 2 \<bar>x\<bar>\<rfloor> - (p - 1))"

definition fl :: "int \<Rightarrow> int \<Rightarrow> real \<Rightarrow> real" where
  "fl p emin x =
     (if x = 0 then 0
      else of_int (rne (x / 2 powi ulp_exponent p emin x)) * 2 powi ulp_exponent p emin x)"

definition binary32 :: "real \<Rightarrow> real" where
  "binary32 = fl 24 (- 149)"

definition binary64 :: "real \<Rightarrow> real" where
  "binary64 = fl 53 (- 1074)"

definition finite32 :: "real \<Rightarrow> bool" where
  "finite32 x \<longleftrightarrow> \<bar>x\<bar> < 2 ^ 128"

text \<open>
  \<^verbatim>\<open>scaleData\<close> in binary32. For one axis, with the raw value and the bounds finite
  floats, the source computes \<^verbatim>\<open>scaled = raw - (max + min) / 2\<close> and then
  \<^verbatim>\<open>scaled /= (abs(max) + abs(min)) / 2\<close>, four roundings and then two and one. The
  result is \<open>None\<close> when the value stored is an infinity or NaN: when the sum of the
  bounds or the difference overflows, when the divisor is zero, or when the quotient
  overflows. When only the sum of the absolute values overflows, the divisor is
  infinite and the quotient is zero.
\<close>

definition scaleData_axis :: "real \<Rightarrow> real \<Rightarrow> real \<Rightarrow> real option" where
  "scaleData_axis raw mn mx =
     (let t = binary32 (mx + mn);
          scaled = binary32 (raw - binary32 (t / 2));
          a = binary32 (\<bar>mx\<bar> + \<bar>mn\<bar>);
          d = binary32 (a / 2)
      in if \<not> finite32 t \<or> \<not> finite32 scaled then None
         else if \<not> finite32 a then Some 0
         else if d = 0 then None
         else if \<not> finite32 (binary32 (scaled / d)) then None
         else Some (binary32 (scaled / d)))"

text \<open>
  The record of reals holds finite values only: the result is \<open>None\<close> when the value
  stored for some axis is an infinity or NaN.
\<close>

definition scaleData_binary32 ::
  "CompassData \<Rightarrow> 'a MultiCompass_scheme \<Rightarrow> CompassData option" where
  "scaleData_binary32 data this =
     (let s = settings this
      in case scaleData_axis (rawX data) (minX s) (maxX s) of
           None \<Rightarrow> None
         | Some sx \<Rightarrow>
             (case scaleData_axis (rawY data) (minY s) (maxY s) of
                None \<Rightarrow> None
              | Some sy \<Rightarrow>
                  (case scaleData_axis (rawZ data) (minZ s) (maxZ s) of
                     None \<Rightarrow> None
                   | Some sz \<Rightarrow>
                       Some (data\<lparr>scaledX := sx, scaledY := sy, scaledZ := sz\<rparr>))))"

text \<open>
  The normalisation of \<^verbatim>\<open>calculateHeading\<close> (the two tests and the two compound
  assignments that end the function) on the float \<open>h\<close> that \<^verbatim>\<open>data->heading\<close> holds
  after the declination has been added. \<open>double\<close> is the rounding of the target's
  \<^verbatim>\<open>double\<close>. The literal \<^verbatim>\<open>PI\<close> is rounded to a double and doubled; \<open>h\<close> is
  converted to double, which is exact; the sum or difference is rounded to double and
  then to float when it is stored.
\<close>

definition normalizeHeading :: "(real \<Rightarrow> real) \<Rightarrow> real \<Rightarrow> real" where
  "normalizeHeading double h =
     (if h < 0 then binary32 (double (h + double (2 * double PI)))
      else if h > double (2 * double PI) then binary32 (double (h - double (2 * double PI)))
      else h)"

section \<open>Register transport\<close>

text \<open>
  The bus is modelled by the peripherals on it: at each 7-bit address there is either
  no device or a device with a file of byte registers that stores what is written and
  returns it when read. \<^verbatim>\<open>writeByte\<close> to an absent device changes nothing.
  \<^verbatim>\<open>readByte\<close> busy-waits until a byte is available; with no device answering the
  wait never ends, which is the result \<open>None\<close>.
\<close>

type_synonym registers = "8 word \<Rightarrow> 8 word"

type_synonym TwoWire = "8 word \<Rightarrow> registers option"

definition writeByte ::
  "8 word \<Rightarrow> 8 word \<Rightarrow> 'a MultiCompass_scheme \<Rightarrow> TwoWire \<Rightarrow> TwoWire" where
  "writeByte reg v this mywire =
     (case mywire (adress this) of
        None \<Rightarrow> mywire
      | Some rf \<Rightarrow> mywire(adress this \<mapsto> rf(reg := v)))"

definition readByte :: "8 word \<Rightarrow> 'a MultiCompass_scheme \<Rightarrow> TwoWire \<Rightarrow> 8 word option" where
  "readByte reg this mywire =
     (case mywire (adress this) of
        None \<Rightarrow> None
      | Some rf \<Rightarrow> Some (rf reg))"

section \<open>Device profile HMC5883L\<close>

definition HMC5883L_REGISTER_CONFIG_A :: "8 word" where
  "HMC5883L_REGISTER_CONFIG_A = 0x00"

definition HMC5883L_REGISTER_CONFIG_B :: "8 word" where
  "HMC5883L_REGISTER_CONFIG_B = 0x01"

definition HMC5883L_REGISTER_MODE :: "8 word" where
  "HMC5883L_REGISTER_MODE = 0x02"

datatype HMC5883L_Samples =
  HMC5883L_SAMPLES_8 | HMC5883L_SAMPLES_4 | HMC5883L_SAMPLES_2 | HMC5883L_SAMPLES_1

datatype HMC5883L_OutputRate =
  HMC5883L_OUTPUTRATE_75HZ | HMC5883L_OUTPUTRATE_30HZ | HMC5883L_OUTPUTRATE_15HZ
| HMC5883L_OUTPUTRATE_7_5HZ | HMC5883L_OUTPUTRATE_3HZ | HMC5883L_OUTPUTRATE_1_5HZ
| HMC5883L_OUTPUTRATE_0_75_HZ

datatype HMC5883L_FieldRange =
  HMC5883L_FIELDRANGE_8_1GA | HMC5883L_FIELDRANGE_5_6GA | HMC5883L_FIELDRANGE_4_7GA
| HMC5883L_FIELDRANGE_4GA | HMC5883L_FIELDRANGE_2_5GA | HMC5883L_FIELDRANGE_1_9GA
| HMC5883L_FIELDRANGE_1_3GA | HMC5883L_FIELDRANGE_0_88GA

datatype HMC5883L_Mode =
  HMC5883L_MODE_IDLE | HMC5883_MODE_SINGLE | HMC5883L_MODE_CONTINOUS

text \<open>The enumerators' values, as the header gives them.\<close>

fun Samples_value :: "HMC5883L_Samples \<Rightarrow> 8 word" where
  "Samples_value HMC5883L_SAMPLES_8 = 0b11"
| "Samples_value HMC5883L_SAMPLES_4 = 0b10"
| "Samples_value HMC5883L_SAMPLES_2 = 0b01"
| "Samples_value HMC5883L_SAMPLES_1 = 0b00"

fun OutputRate_value :: "HMC5883L_OutputRate \<Rightarrow> 8 word" where
  "OutputRate_value HMC5883L_OUTPUTRATE_75HZ = 0b110"
| "OutputRate_value HMC5883L_OUTPUTRATE_30HZ = 0b101"
| "OutputRate_value HMC5883L_OUTPUTRATE_15HZ = 0b100"
| "OutputRate_value HMC5883L_OUTPUTRATE_7_5HZ = 0b011"
| "OutputRate_value HMC5883L_OUTPUTRATE_3HZ = 0b010"
| "OutputRate_value HMC5883L_OUTPUTRATE_1_5HZ = 0b001"
| "OutputRate_value HMC5883L_OUTPUTRATE_0_75_HZ = 0b000"

fun FieldRange_value :: "HMC5883L_FieldRange \<Rightarrow> 8 word" where
  "FieldRange_value HMC5883L_FIELDRANGE_8_1GA = 0b111"
| "FieldRange_value HMC5883L_FIELDRANGE_5_6GA = 0b110"
| "FieldRange_value HMC5883L_FIELDRANGE_4_7GA = 0b101"
| "FieldRange_value HMC5883L_FIELDRANGE_4GA = 0b100"
| "FieldRange_value HMC5883L_FIELDRANGE_2_5GA = 0b011"
| "FieldRange_value HMC5883L_FIELDRANGE_1_9GA = 0b010"
| "FieldRange_value HMC5883L_FIELDRANGE_1_3GA = 0b001"
| "FieldRange_value HMC5883L_FIELDRANGE_0_88GA = 0b000"

fun Mode_value :: "HMC5883L_Mode \<Rightarrow> 8 word" where
  "Mode_value HMC5883L_MODE_IDLE = 0b10"
| "Mode_value HMC5883_MODE_SINGLE = 0b01"
| "Mode_value HMC5883L_MODE_CONTINOUS = 0b00"

text \<open>
  The cast \<^verbatim>\<open>(HMC5883L_FieldRange)v\<close>: the enumerator whose value is \<open>v\<close>, and
  \<open>None\<close> when \<open>v\<close> is the value of no enumerator.
\<close>

definition FieldRange_of :: "8 word \<Rightarrow> HMC5883L_FieldRange option" where
  "FieldRange_of v =
     (if v = 0b111 then Some HMC5883L_FIELDRANGE_8_1GA
      else if v = 0b110 then Some HMC5883L_FIELDRANGE_5_6GA
      else if v = 0b101 then Some HMC5883L_FIELDRANGE_4_7GA
      else if v = 0b100 then Some HMC5883L_FIELDRANGE_4GA
      else if v = 0b011 then Some HMC5883L_FIELDRANGE_2_5GA
      else if v = 0b010 then Some HMC5883L_FIELDRANGE_1_9GA
      else if v = 0b001 then Some HMC5883L_FIELDRANGE_1_3GA
      else if v = 0b000 then Some HMC5883L_FIELDRANGE_0_88GA
      else None)"

text \<open>
  A setter that reads the register first returns \<open>None\<close> when that read never returns;
  otherwise the bus after the write.
\<close>

definition setMode ::
  "HMC5883L_Mode \<Rightarrow> MultiCompassHMC5883L \<Rightarrow> TwoWire \<Rightarrow> TwoWire option" where
  "setMode mode this mywire =
     (case readByte HMC5883L_REGISTER_MODE this mywire of
        None \<Rightarrow> None
      | Some v \<Rightarrow>
          Some (writeByte HMC5883L_REGISTER_MODE ((v AND 0b11111100) OR Mode_value mode)
                  this mywire))"

definition setFieldRange ::
  "HMC5883L_FieldRange \<Rightarrow> MultiCompassHMC5883L \<Rightarrow> TwoWire \<Rightarrow> TwoWire" where
  "setFieldRange rng this mywire =
     writeByte HMC5883L_REGISTER_CONFIG_B (push_bit 5 (FieldRange_value rng)) this mywire"

text \<open>
  \<open>getFieldRange\<close> is \<open>None\<close> when the read never returns; the masked value is below
  four, so the cast always finds an enumerator.
\<close>

definition getFieldRange :: "MultiCompassHMC5883L \<Rightarrow> TwoWire \<Rightarrow> HMC5883L_FieldRange option" where
  "getFieldRange this mywire =
     (case readByte HMC5883L_REGISTER_CONFIG_B this mywire of
        None \<Rightarrow> None
      | Some v \<Rightarrow> FieldRange_of (drop_bit 5 v AND 0b00000011))"

definition setOutputRate ::
  "HMC5883L_OutputRate \<Rightarrow> MultiCompassHMC5883L \<Rightarrow> TwoWire \<Rightarrow> TwoWire option" where
  "setOutputRate samplerate this mywire =
     (case readByte HMC5883L_REGISTER_CONFIG_A this mywire of
        None \<Rightarrow> None
      | Some v \<Rightarrow>
          Some (writeByte HMC5883L_REGISTER_CONFIG_A
                  ((v AND 0b11100011) OR push_bit 2 (OutputRate_value samplerate))
                  this mywire))"

definition setAveragedSamples ::
  "HMC5883L_Samples \<Rightarrow> MultiCompassHMC5883L \<Rightarrow> TwoWire \<Rightarrow> TwoWire option" where
  "setAveragedSamples samples this mywire =
     (case readByte HMC5883L_REGISTER_CONFIG_A this mywire of
        None \<Rightarrow> None
      | Some v \<Rightarrow>
          Some (writeByte HMC5883L_REGISTER_CONFIG_A
                  ((v AND 0b10011111) OR push_bit 5 (Samples_value samples))
                  this mywire))"

section \<open>Notions used in the statements\<close>

text \<open>
  A sample produces a new extreme on some axis when one of the six comparisons of
  \<^verbatim>\<open>calibration\<close> succeeds. The minimum updates do not touch the maxima, so all six
  comparisons can be read against the settings before the call.
\<close>

definition new_extreme :: "CompassData \<Rightarrow> CompassSetting \<Rightarrow> bool" where
  "new_extreme data s \<longleftrightarrow>
     rawX data < minX s \<or> rawY data < minY s \<or> rawZ data < minZ s \<or>
     rawX data > maxX s \<or> rawY data > maxY s \<or> rawZ data > maxZ s"

text \<open>
  The formula of the specification for one axis,
  \<open>(raw - (max + min) / 2) / ((\<bar>max\<bar> + \<bar>min\<bar>) / 2)\<close>, with each of its operations
  rounded to binary32, and the condition that its divisor is not zero and none of its
  operations overflows.
\<close>

definition spec_scaled :: "real \<Rightarrow> real \<Rightarrow> real \<Rightarrow> real" where
  "spec_scaled raw mn mx =
     binary32 (binary32 (raw - binary32 (binary32 (mx + mn) / 2)) /
               binary32 (binary32 (\<bar>mx\<bar> + \<bar>mn\<bar>) / 2))"

definition spec_scaled_defined :: "real \<Rightarrow> real \<Rightarrow> real \<Rightarrow> bool" where
  "spec_scaled_defined raw mn mx \<longleftrightarrow>
     binary32 (binary32 (\<bar>mx\<bar> + \<bar>mn\<bar>) / 2) \<noteq> 0 \<and>
     finite32 (binary32 (mx + mn)) \<and>
     finite32 (binary32 (raw - binary32 (binary32 (mx + mn) / 2))) \<and>
     finite32 (binary32 (\<bar>mx\<bar> + \<bar>mn\<bar>)) \<and>
     finite32 (spec_scaled raw mn mx)"


text \<open>Concrete objects for the worked examples.\<close>

definition example_storage :: MultiCompassHMC5883L where
  "example_storage =
     \<lparr>settings = \<lparr>minX = 0, minY = 0, minZ = 0, maxX = 0, maxY = 0, maxZ = 0,
                  declination = 0, lastCalibration = 0\<rparr>,
      adress = 0, calibrationPeriod = 0\<rparr>"

definition example_compass :: MultiCompassHMC5883L where
  "example_compass = MultiCompassHMC5883L_ctor example_storage"

definition example_data :: "real \<Rightarrow> real \<Rightarrow> real \<Rightarrow> CompassData" where
  "example_data x y z =
     \<lparr>rawX = x, rawY = y, rawZ = z, scaledX = x, scaledY = y, scaledZ = z, heading = 0\<rparr>"

definition example_setting :: "real \<Rightarrow> real \<Rightarrow> real \<Rightarrow> CompassSetting" where
  "example_setting lo hi decl =
     \<lparr>minX = lo, minY = lo, minZ = lo, maxX = hi, maxY = hi, maxZ = hi,
      declination = decl, lastCalibration = 0\<rparr>"

definition example_bus :: "8 word \<Rightarrow> TwoWire" where
  "example_bus v = (\<lambda>a. if a = 0x1F then Some (\<lambda>r. v) else None)"

lemmas example_defs =
  example_storage_def example_compass_def example_data_def example_setting_def example_bus_def
  MultiCompassHMC5883L_ctor_def MultiCompass_ctor_def HMC5883L_ADDRESS_def

section \<open>Calibration bounds\<close>

lemma calibration_step_widens:
  "minX (settings (snd (calibration millis data this))) \<le> minX (settings this) \<and>
   minY (settings (snd (calibration millis data this))) \<le> minY (settings this) \<and>
   minZ (settings (snd (calibration millis data this))) \<le> minZ (settings this) \<and>
   maxX (settings this) \<le> maxX (settings (snd (calibration millis data this))) \<and>
   maxY (settings this) \<le> maxY (settings (snd (calibration millis data this))) \<and>
   maxZ (settings this) \<le> maxZ (settings (snd (calibration millis data this)))"
  by (simp add: calibration_def Let_def)

text \<open>
  After any single call the bounds of every axis are ordered, whatever they were
  before: a sample that updates neither bound lies between them.
\<close>

lemma calibration_step_ordered:
  "minX (settings (snd (calibration millis data this)))
     \<le> maxX (settings (snd (calibration millis data this))) \<and>
   minY (settings (snd (calibration millis data this)))
     \<le> maxY (settings (snd (calibration millis data this))) \<and>
   minZ (settings (snd (calibration millis data this)))
     \<le> maxZ (settings (snd (calibration millis data this)))"
  by (simp add: calibration_def Let_def)

lemma calibration_run_append:
  "calibration_run (cs1 @ cs2) this = calibration_run cs2 (calibration_run cs1 this)"
  by (induction cs1 arbitrary: this) auto

lemma calibration_run_widens:
  "minX (settings (calibration_run cs this)) \<le> minX (settings this) \<and>
   minY (settings (calibration_run cs this)) \<le> minY (settings this) \<and>
   minZ (settings (calibration_run cs this)) \<le> minZ (settings this) \<and>
   maxX (settings this) \<le> maxX (settings (calibration_run cs this)) \<and>
   maxY (settings this) \<le> maxY (settings (calibration_run cs this)) \<and>
   maxZ (settings this) \<le> maxZ (settings (calibration_run cs this))"
proof (induction cs arbitrary: this)
  case Nil
  show ?case by simp
next
  case (Cons c cs)
  obtain millis data where c: "c = (millis, data)" by (cases c)
  let ?t = "snd (calibration millis data this)"
  from Cons.IH [of ?t] calibration_step_widens [of millis data this]
  show ?case unfolding c calibration_run.simps by linarith
qed

lemma calibration_run_ordered:
  "cs \<noteq> [] \<Longrightarrow>
   minX (settings (calibration_run cs this)) \<le> maxX (settings (calibration_run cs this)) \<and>
   minY (settings (calibration_run cs this)) \<le> maxY (settings (calibration_run cs this)) \<and>
   minZ (settings (calibration_run cs this)) \<le> maxZ (settings (calibration_run cs this))"
proof (cases cs)
  case Nil
  assume "cs \<noteq> []"
  with Nil show ?thesis by simp
next
  case (Cons c cs')
  obtain millis data where c: "c = (millis, data)" by (cases c)
  let ?t = "snd (calibration millis data this)"
  from calibration_run_widens [of cs' ?t] calibration_step_ordered [of millis data this]
  show ?thesis unfolding Cons c calibration_run.simps by linarith
qed

text \<open>
  Claim C2. Along every run of calibration calls, from any state of the compass, the
  stored minimum of each axis never increases and the stored maximum never decreases:
  the bounds after the calls \<open>cs1 @ cs2\<close> are compared with the bounds after the prefix
  \<open>cs1\<close>. As soon as one sample has been observed (the run is not empty), minimum
  \<open>\<le>\<close> maximum holds on each axis. This covers the claim's case of a sample inside the
  sentinel bounds of the constructor, and needs neither that restriction nor the
  constructed state.
\<close>

theorem calibration_bounds_monotone:
  "minX (settings (calibration_run (cs1 @ cs2) this)) \<le> minX (settings (calibration_run cs1 this)) \<and>
   minY (settings (calibration_run (cs1 @ cs2) this)) \<le> minY (settings (calibration_run cs1 this)) \<and>
   minZ (settings (calibration_run (cs1 @ cs2) this)) \<le> minZ (settings (calibration_run cs1 this)) \<and>
   maxX (settings (calibration_run cs1 this)) \<le> maxX (settings (calibration_run (cs1 @ cs2) this)) \<and>
   maxY (settings (calibration_run cs1 this)) \<le> maxY (settings (calibration_run (cs1 @ cs2) this)) \<and>
   maxZ (settings (calibration_run cs1 this)) \<le> maxZ (settings (calibration_run (cs1 @ cs2) this)) \<and>
   (cs1 \<noteq> [] \<longrightarrow>
      minX (settings (calibration_run cs1 this)) \<le> maxX (settings (calibration_run cs1 this)) \<and>
      minY (settings (calibration_run cs1 this)) \<le> maxY (settings (calibration_run cs1 this)) \<and>
      minZ (settings (calibration_run cs1 this)) \<le> maxZ (settings (calibration_run cs1 this)))"
  using calibration_run_widens [of cs2 "calibration_run cs1 this"]
    calibration_run_ordered [of cs1 this]
  by (simp add: calibration_run_append)

theorem calibration_bounds_monotone_witness:
  "[(\<lambda>_. 5, example_data 1 2 3)] \<noteq> [] \<and>
   minX (settings (calibration_run [(\<lambda>_. 5, example_data 1 2 3)] example_compass))
     \<le> maxX (settings (calibration_run [(\<lambda>_. 5, example_data 1 2 3)] example_compass)) \<and>
   minX (settings (calibration_run [(\<lambda>_. 5, example_data 1 2 3)] example_compass)) = 1"
  using calibration_bounds_monotone
    [of "[(\<lambda>_. 5, example_data 1 2 3)]" "[]" example_compass]
  by (simp add: calibration_def Let_def example_defs)

section \<open>Completion of calibration\<close>

lemma calibration_complete:
  "fst (calibration millis data this) \<longleftrightarrow>
     calibrationPeriod this <
       uint (millis 6) - lastCalibration (settings (snd (calibration millis data this)))"
  by (simp add: calibration_def Let_def)

lemma calibration_stamp_new:
  "new_extreme data (settings this) \<Longrightarrow>
     lastCalibration (settings (snd (calibration millis data this)))
       \<in> uint ` millis ` {0, 1, 2, 3, 4, 5}"
  by (auto simp add: calibration_def Let_def new_extreme_def)

lemma calibration_stamp_now:
  "new_extreme data (settings this) \<Longrightarrow>
     lastCalibration (settings (snd (calibration (\<lambda>_. now) data this))) = uint now"
  by (auto simp add: calibration_def Let_def new_extreme_def)

lemma calibration_stamp_kept:
  "\<not> new_extreme data (settings this) \<Longrightarrow>
     lastCalibration (settings (snd (calibration millis data this)))
       = lastCalibration (settings this)"
  by (auto simp add: calibration_def Let_def new_extreme_def)

text \<open>
  Claim C3. A calibration call returns true exactly when the clock reading of the final
  comparison minus the stored timestamp, as it is after the updates of this call, is
  greater than \<open>calibrationPeriod\<close>; at a difference equal to the period it returns
  false. A sample with a new extreme on some axis sets the timestamp to a clock reading
  taken in one of the six updates of this call, which is the current reading \<open>now\<close>
  when the clock does not advance during the call; a sample without a new extreme
  leaves the timestamp as it was. The constructor sets the period to 1000.
\<close>

theorem calibration_complete_iff:
  "(fst (calibration millis data this) \<longleftrightarrow>
      calibrationPeriod this <
        uint (millis 6) - lastCalibration (settings (snd (calibration millis data this)))) \<and>
   (uint (millis 6) - lastCalibration (settings (snd (calibration millis data this)))
      = calibrationPeriod this \<longrightarrow> \<not> fst (calibration millis data this)) \<and>
   (new_extreme data (settings this) \<longrightarrow>
      lastCalibration (settings (snd (calibration millis data this)))
        \<in> uint ` millis ` {0, 1, 2, 3, 4, 5}) \<and>
   (new_extreme data (settings this) \<longrightarrow>
      lastCalibration (settings (snd (calibration (\<lambda>_. now) data this))) = uint now) \<and>
   (\<not> new_extreme data (settings this) \<longrightarrow>
      lastCalibration (settings (snd (calibration millis data this)))
        = lastCalibration (settings this)) \<and>
   calibrationPeriod (MultiCompassHMC5883L_ctor mem) = 1000"
proof -
  have "calibrationPeriod (MultiCompassHMC5883L_ctor mem) = 1000"
    by (simp add: MultiCompassHMC5883L_ctor_def MultiCompass_ctor_def)
  with calibration_complete [of millis data this] calibration_stamp_new [of data this millis]
    calibration_stamp_now [of data this now] calibration_stamp_kept [of data this millis]
  show ?thesis by simp
qed

theorem calibration_complete_iff_witness:
  "new_extreme (example_data 1 2 3) (settings example_compass) \<and>
   lastCalibration (settings (snd (calibration (\<lambda>_. 5000) (example_data 1 2 3) example_compass)))
     = 5000 \<and>
   \<not> fst (calibration (\<lambda>_. 5000) (example_data 1 2 3) example_compass) \<and>
   \<not> new_extreme (example_data 1 2 3)
       (settings (setCalibration (example_setting (- 500) 500 0) example_compass)) \<and>
   fst (calibration (\<lambda>_. 1001) (example_data 1 2 3)
         (setCalibration (example_setting (- 500) 500 0) example_compass)) \<and>
   uint ((\<lambda>_. 1000 :: 32 word) (6::nat)) -
     lastCalibration (settings (snd (calibration (\<lambda>_. 1000) (example_data 1 2 3)
         (setCalibration (example_setting (- 500) 500 0) example_compass))))
     = calibrationPeriod (setCalibration (example_setting (- 500) 500 0) example_compass) \<and>
   \<not> fst (calibration (\<lambda>_. 1000) (example_data 1 2 3)
         (setCalibration (example_setting (- 500) 500 0) example_compass))"
  using calibration_complete_iff
      [of "\<lambda>_. 5000" "example_data 1 2 3" example_compass 5000 example_storage]
    calibration_complete_iff
      [of "\<lambda>_. 1000" "example_data 1 2 3"
          "setCalibration (example_setting (- 500) 500 0) example_compass" 1000 example_storage]
  by (simp add: calibration_def Let_def new_extreme_def setCalibration_def example_defs)

section \<open>Seeding the calibration\<close>

text \<open>
  Claim C8, as stated: after \<^verbatim>\<open>setCalibration\<close> the next calibration call reports
  complete at every clock value greater than the period. It does not when the sample
  lies beyond a seeded bound: with the period 1000, bounds seeded to \<open>\<plusminus>500\<close>, the
  sample \<open>(600, 0, 0)\<close> and the clock at 5000, the new maximum of the X axis stamps
  5000 and the call returns false.
\<close>

theorem setCalibration_then_calibration_counterexample:
  "\<not> fst (calibration (\<lambda>_. 5000) (example_data 600 0 0)
            (setCalibration (example_setting (- 500) 500 0) example_compass)) \<and>
   calibrationPeriod (setCalibration (example_setting (- 500) 500 0) example_compass)
     < uint (5000 :: 32 word)"
  by (simp add: calibration_def Let_def setCalibration_def example_defs)

text \<open>
  Claim C8, amended. \<^verbatim>\<open>setCalibration\<close> overwrites the six bounds and the
  declination from the supplied record and sets the timestamp to zero. The next
  calibration call reports complete at every clock value greater than the period,
  provided that its sample produces no new extreme against the seeded bounds.
\<close>

theorem setCalibration_then_calibration:
  "minX (settings (setCalibration c this)) = minX c \<and>
   minY (settings (setCalibration c this)) = minY c \<and>
   minZ (settings (setCalibration c this)) = minZ c \<and>
   maxX (settings (setCalibration c this)) = maxX c \<and>
   maxY (settings (setCalibration c this)) = maxY c \<and>
   maxZ (settings (setCalibration c this)) = maxZ c \<and>
   declination (settings (setCalibration c this)) = declination c \<and>
   lastCalibration (settings (setCalibration c this)) = 0 \<and>
   (\<not> new_extreme data c \<and> calibrationPeriod this < uint (millis 6) \<longrightarrow>
      fst (calibration millis data (setCalibration c this)))"
  by (simp add: setCalibration_def calibration_def Let_def new_extreme_def)

theorem setCalibration_then_calibration_witness:
  "\<not> new_extreme (example_data 1 2 3) (example_setting (- 500) 500 0) \<and>
   calibrationPeriod example_compass < uint ((\<lambda>_. 5000 :: 32 word) (6::nat)) \<and>
   fst (calibration (\<lambda>_. 5000) (example_data 1 2 3)
         (setCalibration (example_setting (- 500) 500 0) example_compass))"
  using setCalibration_then_calibration
      [of "example_setting (- 500) 500 0" example_compass "example_data 1 2 3" "\<lambda>_. 5000"]
  by (simp add: new_extreme_def example_defs)

section \<open>Properties of scaling\<close>



text \<open>
  The idealised \<open>scaleData\<close> is used for the fresh state: there the midpoint 0 and the
  divisor 100000 are exact on the target, so that only its final quotient is rounded.
\<close>



section \<open>Properties of the heading\<close>







section \<open>Values of the rounding\<close>

lemma two_powr_int: "(2::real) powr real_of_int k = 2 powi k"
  by (simp add: powr_real_of_int')

lemma ulp_exponent_eval:
  assumes "2 powi k \<le> \<bar>x\<bar>" and "\<bar>x\<bar> < 2 powi (k + 1)"
  shows "ulp_exponent p emin x = max emin (k - (p - 1))"
proof -
  have "(0::real) < 2 powi k" by simp
  with assms(1) have pos: "0 < \<bar>x\<bar>" by linarith
  have lo: "2 powr real_of_int k \<le> \<bar>x\<bar>"
    using assms(1) by (simp only: two_powr_int)
  have "\<bar>x\<bar> < 2 powr real_of_int (k + 1)"
    using assms(2) by (simp only: two_powr_int)
  then have hi: "\<bar>x\<bar> < 2 powr (real_of_int k + 1)" by simp
  from pos lo hi have "\<lfloor>log 2 \<bar>x\<bar>\<rfloor> = k"
    by (simp add: floor_log_eq_powr_iff)
  then show ?thesis by (simp add: ulp_exponent_def)
qed

text \<open>
  With the binade of \<open>x\<close> known, the rounding is a rounding to an integer multiple of
  the unit in the last place. This is how the values below are computed.
\<close>

lemma fl_eval:
  assumes "2 powi k \<le> \<bar>x\<bar>" and "\<bar>x\<bar> < 2 powi (k + 1)" and "e = max emin (k - (p - 1))"
  shows "fl p emin x = of_int (rne (x / 2 powi e)) * 2 powi e"
proof -
  have "(0::real) < 2 powi k" by simp
  with assms(1) have "0 < \<bar>x\<bar>" by linarith
  then have "x \<noteq> 0" by simp
  with ulp_exponent_eval [OF assms(1,2), of p emin] assms(3)
  show ?thesis by (simp add: fl_def)
qed

lemma binary32_0: "binary32 0 = 0"
  by (simp add: binary32_def fl_def)

lemma binary32_1: "binary32 1 = 1"
  unfolding binary32_def
  by (subst fl_eval [where k = 0 and e = "- 23"]) (simp_all add: rne_def)

lemma binary32_250: "binary32 250 = 250" "binary32 (- 250) = - 250"
  unfolding binary32_def
  by (subst fl_eval [where k = 7 and e = "- 16"], simp_all add: rne_def)+

lemma binary32_500: "binary32 500 = 500"
  unfolding binary32_def
  by (subst fl_eval [where k = 8 and e = "- 15"]) (simp_all add: rne_def)

lemma binary32_1000: "binary32 1000 = 1000"
  unfolding binary32_def
  by (subst fl_eval [where k = 9 and e = "- 14"]) (simp_all add: rne_def)

lemma binary32_half: "binary32 (1 / 2) = 1 / 2" "binary32 (- (1 / 2)) = - (1 / 2)"
  unfolding binary32_def
  by (subst fl_eval [where k = "- 1" and e = "- 24"], simp_all add: rne_def)+

lemma binary32_2pow: "binary32 8388608 = 8388608" "binary32 16777216 = 16777216"
  unfolding binary32_def
  by (subst fl_eval [where k = 23 and e = 0], simp_all add: rne_def,
      subst fl_eval [where k = 24 and e = 1], simp_all add: rne_def)

lemma binary32_tie: "binary32 16777217 = 16777216"
  unfolding binary32_def
  by (subst fl_eval [where k = 24 and e = 1]) (simp_all add: rne_def)

lemma binary32_2pow_minus_23: "binary32 (1 / 8388608) = 1 / 8388608"
  unfolding binary32_def
  by (subst fl_eval [where k = "- 23" and e = "- 46"]) (simp_all add: rne_def)

text \<open>The smallest positive float \<open>2^-149\<close>, and its half, which rounds to zero.\<close>

lemma binary32_subnormal:
  "binary32 (1 / 713623846352979940529142984724747568191373312)
     = 1 / 713623846352979940529142984724747568191373312"
  "binary32 (1 / 1427247692705959881058285969449495136382746624) = 0"
  unfolding binary32_def
  by (subst fl_eval [where k = "- 149" and e = "- 149"], simp_all add: rne_def,
      subst fl_eval [where k = "- 150" and e = "- 149"], simp_all add: rne_def)

section \<open>Scaling in binary32\<close>

lemma scaleData_axis_defined:
  "spec_scaled_defined raw mn mx \<Longrightarrow> scaleData_axis raw mn mx = Some (spec_scaled raw mn mx)"
  by (simp add: scaleData_axis_def spec_scaled_defined_def spec_scaled_def Let_def)

lemma spec_scaled_example:
  "spec_scaled_defined 250 (- 500) 500" "spec_scaled 250 (- 500) 500 = 1 / 2"
  "spec_scaled_defined (- 250) (- 500) 500" "spec_scaled (- 250) (- 500) 500 = - (1 / 2)"
  "spec_scaled_defined 0 (- 500) 500" "spec_scaled 0 (- 500) 500 = 0"
  by (simp_all add: spec_scaled_defined_def spec_scaled_def finite32_def
        binary32_0 binary32_250 binary32_500 binary32_1000 binary32_half)

text \<open>
  Rounding decides the result. With the bounds 1 and \<open>2^24\<close> and the raw value
  8388609, the sum of the bounds rounds to \<open>2^24\<close> and the scaled value is \<open>2^-23\<close>,
  where exact arithmetic gives \<open>1/16777217\<close>. With the bounds 0 and \<open>2^-149\<close>, the
  smallest positive float, the divisor rounds to zero.
\<close>

lemma scaleData_axis_rounds:
  "scaleData_axis 8388609 1 16777216 = Some (1 / 8388608)"
  "(8388609 - (16777216 + 1) / 2) / ((\<bar>16777216\<bar> + \<bar>1\<bar>) / 2) = (1 / 16777217 :: real)"
  by (simp_all add: scaleData_axis_def Let_def finite32_def
        binary32_1 binary32_2pow binary32_tie binary32_2pow_minus_23)

lemma scaleData_axis_divisor_underflow:
  "scaleData_axis 1 0 (1 / 2 ^ 149) = None"
  by (simp add: scaleData_axis_def Let_def finite32_def binary32_1 binary32_subnormal)

text \<open>
  Claim C4. In binary32 arithmetic, for every raw sample and every calibration state
  whose three divisors \<open>(\<bar>max\<bar> + \<bar>min\<bar>) / 2\<close> are not zero and whose operations do not
  overflow, \<^verbatim>\<open>scaleData\<close> sets each scaled axis to
  \<open>(raw - (max + min) / 2) / ((\<bar>max\<bar> + \<bar>min\<bar>) / 2)\<close>, each operation rounded, and
  changes nothing else of the sample. With all minima \<open>-500\<close>, all maxima \<open>500\<close> and the
  raw sample \<open>(250, -250, 0)\<close> the scaled sample is \<open>(0.5, -0.5, 0)\<close>.
\<close>

theorem scaleData_binary32_formula:
  "(spec_scaled_defined (rawX data) (minX (settings this)) (maxX (settings this)) \<and>
    spec_scaled_defined (rawY data) (minY (settings this)) (maxY (settings this)) \<and>
    spec_scaled_defined (rawZ data) (minZ (settings this)) (maxZ (settings this)) \<longrightarrow>
    scaleData_binary32 data this = Some (data
      \<lparr>scaledX := spec_scaled (rawX data) (minX (settings this)) (maxX (settings this)),
       scaledY := spec_scaled (rawY data) (minY (settings this)) (maxY (settings this)),
       scaledZ := spec_scaled (rawZ data) (minZ (settings this)) (maxZ (settings this))\<rparr>)) \<and>
   (minX (settings this) = - 500 \<and> minY (settings this) = - 500 \<and>
    minZ (settings this) = - 500 \<and> maxX (settings this) = 500 \<and>
    maxY (settings this) = 500 \<and> maxZ (settings this) = 500 \<and>
    rawX data = 250 \<and> rawY data = - 250 \<and> rawZ data = 0 \<longrightarrow>
    scaleData_binary32 data this = Some (data\<lparr>scaledX := 0.5, scaledY := - 0.5, scaledZ := 0\<rparr>))"
proof -
  have general:
    "spec_scaled_defined (rawX data) (minX (settings this)) (maxX (settings this)) \<and>
     spec_scaled_defined (rawY data) (minY (settings this)) (maxY (settings this)) \<and>
     spec_scaled_defined (rawZ data) (minZ (settings this)) (maxZ (settings this)) \<longrightarrow>
     scaleData_binary32 data this = Some (data
       \<lparr>scaledX := spec_scaled (rawX data) (minX (settings this)) (maxX (settings this)),
        scaledY := spec_scaled (rawY data) (minY (settings this)) (maxY (settings this)),
        scaledZ := spec_scaled (rawZ data) (minZ (settings this)) (maxZ (settings this))\<rparr>)"
    by (simp add: scaleData_binary32_def Let_def scaleData_axis_defined)
  have example:
    "minX (settings this) = - 500 \<and> minY (settings this) = - 500 \<and>
     minZ (settings this) = - 500 \<and> maxX (settings this) = 500 \<and>
     maxY (settings this) = 500 \<and> maxZ (settings this) = 500 \<and>
     rawX data = 250 \<and> rawY data = - 250 \<and> rawZ data = 0 \<longrightarrow>
     scaleData_binary32 data this =
       Some (data\<lparr>scaledX := 0.5, scaledY := - 0.5, scaledZ := 0\<rparr>)"
    by (simp add: scaleData_binary32_def Let_def scaleData_axis_defined spec_scaled_example)
  from general example show ?thesis by blast
qed

theorem scaleData_binary32_formula_witness:
  "spec_scaled_defined (rawX (example_data 250 (- 250) 0))
     (minX (settings (setCalibration (example_setting (- 500) 500 0) example_compass)))
     (maxX (settings (setCalibration (example_setting (- 500) 500 0) example_compass))) \<and>
   spec_scaled_defined (rawY (example_data 250 (- 250) 0))
     (minY (settings (setCalibration (example_setting (- 500) 500 0) example_compass)))
     (maxY (settings (setCalibration (example_setting (- 500) 500 0) example_compass))) \<and>
   spec_scaled_defined (rawZ (example_data 250 (- 250) 0))
     (minZ (settings (setCalibration (example_setting (- 500) 500 0) example_compass)))
     (maxZ (settings (setCalibration (example_setting (- 500) 500 0) example_compass))) \<and>
   scaleData_binary32 (example_data 250 (- 250) 0)
       (setCalibration (example_setting (- 500) 500 0) example_compass)
     = Some ((example_data 250 (- 250) 0)\<lparr>scaledX := 0.5, scaledY := - 0.5, scaledZ := 0\<rparr>)"
  using scaleData_binary32_formula
      [of "example_data 250 (- 250) 0"
          "setCalibration (example_setting (- 500) 500 0) example_compass"]
  by (simp add: setCalibration_def example_defs spec_scaled_example)

section \<open>A bound on \<open>\<pi>\<close>\<close>

text \<open>
  The float \<open>13176795 / 2^21\<close> lies above \<open>2\<pi>\<close>. The bound comes from Machin's formula
  and from polynomial bounds on the arc tangent, each proved from the sign of a
  derivative.
\<close>

lemma one_plus_square_nz: "1 + (t::real)\<^sup>2 \<noteq> 0"
  using zero_le_power2 [of t] by linarith

lemma DERIV_arctan_upper: "DERIV (\<lambda>t::real. t - t ^ 3 / 3 + t ^ 5 / 5 - t ^ 7 / 7 + t ^ 9 / 9 - arctan t) t
    :> 1 - t ^ 2 + t ^ 4 - t ^ 6 + t ^ 8 - inverse (1 + t\<^sup>2)"
  by (auto intro!: derivative_eq_intros)

lemma arctan_upper_quotient: "1 - t ^ 2 + t ^ 4 - t ^ 6 + t ^ 8 - inverse (1 + t\<^sup>2) = t ^ 10 / (1 + (t::real)\<^sup>2)"
proof -
  have "(1 - t ^ 2 + t ^ 4 - t ^ 6 + t ^ 8) * (1 + t\<^sup>2) = 1 + t ^ 10"
    by algebra
  then have "1 - t ^ 2 + t ^ 4 - t ^ 6 + t ^ 8 = (1 + t ^ 10) / (1 + t\<^sup>2)"
    using one_plus_square_nz [of t] by (simp add: eq_divide_eq)
  then show ?thesis
    using one_plus_square_nz [of t] by (simp add: inverse_eq_divide diff_divide_distrib [symmetric])
qed


lemma arctan_lower_quotient: "inverse (1 + t\<^sup>2) - (1 - t ^ 2) = t ^ 4 / (1 + (t::real)\<^sup>2)"
proof -
  have "(1 - t ^ 2) * (1 + t\<^sup>2) = 1 - t ^ 4"
    by algebra
  then have "1 - t ^ 2 = (1 - t ^ 4) / (1 + t\<^sup>2)"
    using one_plus_square_nz [of t] by (simp add: eq_divide_eq)
  then show ?thesis
    using one_plus_square_nz [of t] by (simp add: inverse_eq_divide diff_divide_distrib [symmetric])
qed

lemma DERIV_arctan_lower: "DERIV (\<lambda>t::real. arctan t - (t - t ^ 3 / 3)) t :> inverse (1 + t\<^sup>2) - (1 - t ^ 2)"
  by (auto intro!: derivative_eq_intros)

lemma quotient_nonneg: "0 \<le> t ^ (2 * n) / (1 + (t::real)\<^sup>2)"
proof -
  have "0 \<le> t ^ (2 * n)" by (simp add: zero_le_even_power)
  moreover have "0 < 1 + t\<^sup>2" using zero_le_power2 [of t] by linarith
  ultimately show ?thesis by simp
qed

lemma arctan_upper:
  assumes "0 \<le> x"
  shows "arctan x \<le> x - x ^ 3 / 3 + x ^ 5 / 5 - x ^ 7 / 7 + x ^ 9 / (9::real)"
proof -
  let ?f = "\<lambda>t::real. t - t ^ 3 / 3 + t ^ 5 / 5 - t ^ 7 / 7 + t ^ 9 / 9 - arctan t"
  have "?f 0 \<le> ?f x"
  proof (rule DERIV_nonneg_imp_nondecreasing [OF assms])
    fix t :: real
    have "DERIV ?f t :> t ^ 10 / (1 + t\<^sup>2)"
      using DERIV_arctan_upper [of t] by (simp only: arctan_upper_quotient)
    moreover have "0 \<le> t ^ 10 / (1 + t\<^sup>2)"
      using quotient_nonneg [of t 5] by simp
    ultimately show "\<exists>y. DERIV ?f t :> y \<and> 0 \<le> y"
      by blast
  qed
  then show ?thesis by simp
qed

lemma arctan_lower:
  assumes "0 \<le> x"
  shows "x - x ^ 3 / (3::real) \<le> arctan x"
proof -
  let ?f = "\<lambda>t::real. arctan t - (t - t ^ 3 / 3)"
  have "?f 0 \<le> ?f x"
  proof (rule DERIV_nonneg_imp_nondecreasing [OF assms])
    fix t :: real
    have "DERIV ?f t :> t ^ 4 / (1 + t\<^sup>2)"
      using DERIV_arctan_lower [of t] by (simp only: arctan_lower_quotient)
    moreover have "0 \<le> t ^ 4 / (1 + t\<^sup>2)"
      using quotient_nonneg [of t 2] by simp
    ultimately show "\<exists>y. DERIV ?f t :> y \<and> 0 \<le> y"
      by blast
  qed
  then show ?thesis by simp
qed


lemma arctan_fifth: "arctan (1 / 5) \<le> (24288907 / 123046875 :: real)"
proof -
  have "(1 / 5) - (1 / 5) ^ 3 / 3 + (1 / 5) ^ 5 / 5 - (1 / 5) ^ 7 / 7 + (1 / 5) ^ 9 / 9
      = (24288907 / 123046875 :: real)"
    by (simp add: power_divide)
  with arctan_upper [of "1 / 5"] show ?thesis by simp
qed

lemma arctan_239th: "(171362 / 40955757 :: real) \<le> arctan (1 / 239)"
proof -
  have "(1 / 239) - (1 / 239) ^ 3 / 3 = (171362 / 40955757 :: real)"
    by (simp add: power_divide)
  with arctan_lower [of "1 / 239"] show ?thesis by simp
qed

lemma two_pi_upper: "2 * pi < 13176795 / 2 ^ 21"
proof -
  have "pi = 16 * arctan (1 / 5) - 4 * arctan (1 / 239)"
    using machin by simp
  with arctan_fifth arctan_239th
  have "pi \<le> 16 * (24288907 / 123046875) - 4 * (171362 / 40955757)"
    by linarith
  also have "\<dots> < 13176795 / 2 ^ 22"
    by simp
  finally show ?thesis by simp
qed

section \<open>Normalisation in binary arithmetic\<close>

lemma binary64_PI: "binary64 PI = 7074237752028440 / 2 ^ 51"
  unfolding binary64_def PI_def
  by (subst fl_eval [where k = 1 and e = "- 51"]) (simp_all add: rne_def)

lemma binary64_2PI:
  "binary64 (2 * (7074237752028440 / 2 ^ 51)) = 7074237752028440 / 2 ^ 50"
  unfolding binary64_def
  by (subst fl_eval [where k = 2 and e = "- 50"]) (simp_all add: rne_def)

lemma binary64_sum:
  "binary64 (- (1 / 2 ^ 33) + 7074237752028440 / 2 ^ 50) = 7074237751897368 / 2 ^ 50"
  unfolding binary64_def
  by (subst fl_eval [where k = 2 and e = "- 50"]) (simp_all add: rne_def)

lemma binary32_sum64: "binary32 (7074237751897368 / 2 ^ 50) = 13176795 / 2 ^ 21"
  unfolding binary32_def
  by (subst fl_eval [where k = 2 and e = "- 21"]) (simp_all add: rne_def)

lemma binary32_PI: "binary32 PI = 13176795 / 2 ^ 22"
  unfolding binary32_def PI_def
  by (subst fl_eval [where k = 1 and e = "- 22"]) (simp_all add: rne_def)

lemma binary32_2PI: "binary32 (2 * (13176795 / 2 ^ 22)) = 13176795 / 2 ^ 21"
  unfolding binary32_def
  by (subst fl_eval [where k = 2 and e = "- 21"]) (simp_all add: rne_def)

lemma binary32_sum32: "binary32 (- (1 / 2 ^ 33) + 13176795 / 2 ^ 21) = 13176795 / 2 ^ 21"
  unfolding binary32_def
  by (subst fl_eval [where k = 2 and e = "- 21"]) (simp_all add: rne_def)

lemma binary32_stored: "binary32 (13176795 / 2 ^ 21) = 13176795 / 2 ^ 21"
  unfolding binary32_def
  by (subst fl_eval [where k = 2 and e = "- 21"]) (simp_all add: rne_def)

lemma negative_sum: "(- (1 / 2 ^ 33) < (0::real)) = True"
  by simp

text \<open>
  Where \<^verbatim>\<open>double\<close> is binary32, \<open>2 * PI\<close> is the float \<open>13176795 / 2^21\<close>, and a
  heading equal to it is not greater than it: the test with \<open>>\<close> leaves it as it is.
\<close>

lemma normalizeHeading_keeps_2PI_binary32:
  "normalizeHeading binary32 (13176795 / 2 ^ 21) = 13176795 / 2 ^ 21"
proof -
  have nonneg: "(13176795 / 2 ^ 21 < (0::real)) = False" by simp
  show ?thesis
    by (simp only: normalizeHeading_def nonneg if_False binary32_PI binary32_2PI less_irrefl)
qed

text \<open>
  Claim C6. Whenever the sum before normalisation lies in \<open>[-2\<pi>, 4\<pi>)\<close>, the stored
  heading should lie in \<open>[0, 2\<pi>)\<close>. With \<open>scaledX = 1\<close>, \<open>scaledY = 0\<close>, weight 1 on z and
  the declination \<open>-2^-33\<close> the sum is \<open>-2^-33\<close>, inside that interval. The source adds
  \<open>2 * PI\<close> and stores the result as a float: the float nearest to it is
  \<open>13176795 / 2^21 = 6.2831855\<close>, which is greater than \<open>2 * PI\<close> and greater than
  \<open>2\<pi>\<close>. This is the value stored where \<^verbatim>\<open>double\<close> is binary64 and where it is
  binary32.
\<close>

theorem normalizeHeading_above_2PI:
  "heading_sum (example_data 1 0 0) 0 0 1
      (setDeclinationAngle (- (1 / 2 ^ 33)) example_compass) = - (1 / 2 ^ 33) \<and>
   - (2 * pi) \<le> - (1 / 2 ^ 33) \<and> - (1 / 2 ^ 33) < 4 * pi \<and>
   normalizeHeading binary64 (- (1 / 2 ^ 33)) = 13176795 / 2 ^ 21 \<and>
   normalizeHeading binary32 (- (1 / 2 ^ 33)) = 13176795 / 2 ^ 21 \<and>
   2 * PI < (13176795 / 2 ^ 21 :: real) \<and>
   2 * pi < 13176795 / 2 ^ 21"
proof -
  have sum: "heading_sum (example_data 1 0 0) 0 0 1
      (setDeclinationAngle (- (1 / 2 ^ 33)) example_compass) = - (1 / 2 ^ 33)"
    by (simp add: heading_sum_def atan2f_def setDeclinationAngle_def example_data_def)
  have small: "0 < (1 / 2 ^ 33 :: real)" "(1 / 2 ^ 33 :: real) \<le> 1" by simp_all
  with pi_ge_two have range: "- (2 * pi) \<le> - (1 / 2 ^ 33)" "- (1 / 2 ^ 33) < 4 * pi"
    by linarith+
  have d64: "normalizeHeading binary64 (- (1 / 2 ^ 33)) = 13176795 / 2 ^ 21"
    by (simp only: normalizeHeading_def negative_sum if_True
          binary64_PI binary64_2PI binary64_sum binary32_sum64)
  have d32: "normalizeHeading binary32 (- (1 / 2 ^ 33)) = 13176795 / 2 ^ 21"
    by (simp only: normalizeHeading_def negative_sum if_True
          binary32_PI binary32_2PI binary32_sum32 binary32_stored)
  have above: "2 * PI < (13176795 / 2 ^ 21 :: real)"
    by (simp add: PI_def)
  from sum range d64 d32 above two_pi_upper show ?thesis by blast
qed

section \<open>Register fields\<close>

lemma field_preserved:
  "c AND m = 0 \<Longrightarrow> ((v AND m) OR c) AND m = v AND (m :: 8 word)"
  by (simp add: bit.conj_disj_distrib2)

lemma field_written:
  "m AND f = 0 \<Longrightarrow> c AND f = c \<Longrightarrow> ((v AND m) OR c) AND f = (c :: 8 word)"
  by (simp add: bit.conj_disj_distrib2 and.assoc)

lemma mode_field:
  "Mode_value mode AND 0b11111100 = 0 \<and> Mode_value mode AND 0b00000011 = Mode_value mode"
  by (cases mode) simp_all

lemma rate_field:
  "push_bit 2 (OutputRate_value r) AND 0b11100011 = 0 \<and>
   push_bit 2 (OutputRate_value r) AND 0b00011100 = push_bit 2 (OutputRate_value r)"
  by (cases r) simp_all

lemma samples_field:
  "push_bit 5 (Samples_value s) AND 0b10011111 = 0 \<and>
   push_bit 5 (Samples_value s) AND 0b01100000 = push_bit 5 (Samples_value s)"
  by (cases s) simp_all

lemma range_field: "push_bit 5 (FieldRange_value r) AND 0b00011111 = 0"
  by (cases r) simp_all

text \<open>
  Claim C9, as stated: \<^verbatim>\<open>setAveragedSamples\<close> is a partial-register overwrite that does
  not preserve the other bits of its register. The source reads the register, clears
  bits 5 and 6 and ors the field in: on a register holding \<open>0xFF\<close>, setting one
  sample leaves \<open>0x9F\<close>, with bits 0 to 4 and bit 7 as they were.
\<close>

theorem setAveragedSamples_counterexample:
  "Option.bind (setAveragedSamples HMC5883L_SAMPLES_1 example_compass (example_bus 0xFF))
     (readByte HMC5883L_REGISTER_CONFIG_A example_compass) = Some 0x9F \<and>
   readByte HMC5883L_REGISTER_CONFIG_A example_compass (example_bus 0xFF) = Some 0xFF \<and>
   (0x9F :: 8 word) AND 0b10011111 = 0xFF AND 0b10011111"
  by (simp add: setAveragedSamples_def readByte_def writeByte_def example_defs)

text \<open>
  Claim C9, amended. With a device answering at the compass's address, \<^verbatim>\<open>setMode\<close>,
  \<^verbatim>\<open>setOutputRate\<close> and \<^verbatim>\<open>setAveragedSamples\<close> are read-modify-write for every prior
  register content: they write one register, keep its bits outside the field (masks
  \<open>0xFC\<close>, \<open>0xE3\<close>, \<open>0x9F\<close>) and set the field to the enumerator's value.
  \<^verbatim>\<open>setFieldRange\<close> alone overwrites its whole register: configuration register B
  becomes the range shifted to bits 5 to 7, with bits 0 to 4 cleared whatever they were.
\<close>

theorem register_setters_frame:
  "mywire (adress this) = Some rf \<Longrightarrow>
   setMode mode this mywire =
     Some (mywire(adress this \<mapsto> rf(HMC5883L_REGISTER_MODE :=
       (rf HMC5883L_REGISTER_MODE AND 0b11111100) OR Mode_value mode))) \<and>
   ((rf HMC5883L_REGISTER_MODE AND 0b11111100) OR Mode_value mode) AND 0b11111100
     = rf HMC5883L_REGISTER_MODE AND 0b11111100 \<and>
   ((rf HMC5883L_REGISTER_MODE AND 0b11111100) OR Mode_value mode) AND 0b00000011
     = Mode_value mode \<and>
   setOutputRate samplerate this mywire =
     Some (mywire(adress this \<mapsto> rf(HMC5883L_REGISTER_CONFIG_A :=
       (rf HMC5883L_REGISTER_CONFIG_A AND 0b11100011) OR
         push_bit 2 (OutputRate_value samplerate)))) \<and>
   ((rf HMC5883L_REGISTER_CONFIG_A AND 0b11100011) OR push_bit 2 (OutputRate_value samplerate))
       AND 0b11100011
     = rf HMC5883L_REGISTER_CONFIG_A AND 0b11100011 \<and>
   ((rf HMC5883L_REGISTER_CONFIG_A AND 0b11100011) OR push_bit 2 (OutputRate_value samplerate))
       AND 0b00011100
     = push_bit 2 (OutputRate_value samplerate) \<and>
   setAveragedSamples samples this mywire =
     Some (mywire(adress this \<mapsto> rf(HMC5883L_REGISTER_CONFIG_A :=
       (rf HMC5883L_REGISTER_CONFIG_A AND 0b10011111) OR push_bit 5 (Samples_value samples)))) \<and>
   ((rf HMC5883L_REGISTER_CONFIG_A AND 0b10011111) OR push_bit 5 (Samples_value samples))
       AND 0b10011111
     = rf HMC5883L_REGISTER_CONFIG_A AND 0b10011111 \<and>
   ((rf HMC5883L_REGISTER_CONFIG_A AND 0b10011111) OR push_bit 5 (Samples_value samples))
       AND 0b01100000
     = push_bit 5 (Samples_value samples) \<and>
   setFieldRange rng this mywire =
     mywire(adress this \<mapsto> rf(HMC5883L_REGISTER_CONFIG_B :=
       push_bit 5 (FieldRange_value rng))) \<and>
   push_bit 5 (FieldRange_value rng) AND 0b00011111 = 0"
proof -
  assume dev: "mywire (adress this) = Some rf"
  have m: "setMode mode this mywire =
     Some (mywire(adress this \<mapsto> rf(HMC5883L_REGISTER_MODE :=
       (rf HMC5883L_REGISTER_MODE AND 0b11111100) OR Mode_value mode)))"
    using dev by (simp add: setMode_def readByte_def writeByte_def)
  have r: "setOutputRate samplerate this mywire =
     Some (mywire(adress this \<mapsto> rf(HMC5883L_REGISTER_CONFIG_A :=
       (rf HMC5883L_REGISTER_CONFIG_A AND 0b11100011) OR
         push_bit 2 (OutputRate_value samplerate))))"
    using dev by (simp add: setOutputRate_def readByte_def writeByte_def)
  have s: "setAveragedSamples samples this mywire =
     Some (mywire(adress this \<mapsto> rf(HMC5883L_REGISTER_CONFIG_A :=
       (rf HMC5883L_REGISTER_CONFIG_A AND 0b10011111) OR push_bit 5 (Samples_value samples))))"
    using dev by (simp add: setAveragedSamples_def readByte_def writeByte_def)
  have f: "setFieldRange rng this mywire =
     mywire(adress this \<mapsto> rf(HMC5883L_REGISTER_CONFIG_B :=
       push_bit 5 (FieldRange_value rng)))"
    using dev by (simp add: setFieldRange_def writeByte_def)
  have mp: "((rf HMC5883L_REGISTER_MODE AND 0b11111100) OR Mode_value mode) AND 0b11111100
     = rf HMC5883L_REGISTER_MODE AND 0b11111100"
    using mode_field [of mode] by (intro field_preserved) simp
  have mw: "((rf HMC5883L_REGISTER_MODE AND 0b11111100) OR Mode_value mode) AND 0b00000011
     = Mode_value mode"
    using mode_field [of mode] by (intro field_written) simp_all
  have rp: "((rf HMC5883L_REGISTER_CONFIG_A AND 0b11100011) OR
        push_bit 2 (OutputRate_value samplerate)) AND 0b11100011
     = rf HMC5883L_REGISTER_CONFIG_A AND 0b11100011"
    using rate_field [of samplerate] by (intro field_preserved) simp
  have rw: "((rf HMC5883L_REGISTER_CONFIG_A AND 0b11100011) OR
        push_bit 2 (OutputRate_value samplerate)) AND 0b00011100
     = push_bit 2 (OutputRate_value samplerate)"
    using rate_field [of samplerate] by (intro field_written) simp_all
  have sp: "((rf HMC5883L_REGISTER_CONFIG_A AND 0b10011111) OR
        push_bit 5 (Samples_value samples)) AND 0b10011111
     = rf HMC5883L_REGISTER_CONFIG_A AND 0b10011111"
    using samples_field [of samples] by (intro field_preserved) simp
  have sw: "((rf HMC5883L_REGISTER_CONFIG_A AND 0b10011111) OR
        push_bit 5 (Samples_value samples)) AND 0b01100000
     = push_bit 5 (Samples_value samples)"
    using samples_field [of samples] by (intro field_written) simp_all
  from m mp mw r rp rw s sp sw f range_field [of rng] show ?thesis by blast
qed

theorem register_setters_frame_witness:
  "example_bus 0xFF (adress example_compass) = Some (\<lambda>r. 0xFF) \<and>
   setFieldRange HMC5883L_FIELDRANGE_1_3GA example_compass (example_bus 0xFF) =
     (example_bus 0xFF)(adress example_compass \<mapsto>
        (\<lambda>r. 0xFF)(HMC5883L_REGISTER_CONFIG_B := push_bit 5 (FieldRange_value HMC5883L_FIELDRANGE_1_3GA)))"
  using register_setters_frame [of "example_bus 0xFF" example_compass "\<lambda>r. 0xFF"]
  by (simp add: example_defs)

section \<open>Field range round trip\<close>

lemma getFieldRange_reads_two_bits:
  "mywire (adress this) = Some rf \<Longrightarrow>
   getFieldRange this (setFieldRange r this mywire)
     = FieldRange_of (FieldRange_value r AND 0b00000011)"
  by (cases r) (simp_all add: getFieldRange_def setFieldRange_def readByte_def writeByte_def)

text \<open>
  Claim C10. \<^verbatim>\<open>getFieldRange\<close> after \<^verbatim>\<open>setFieldRange\<close> should return the range that
  was set, for each of the eight ranges. The setter writes the three bits 5 to 7, the
  getter masks the shifted value with \<open>0b00000011\<close> and so reads bits 5 and 6 only:
  after setting the range 8.1 Ga (\<open>0b111\<close>) it returns the range 2.5 Ga (\<open>0b011\<close>).
\<close>

theorem getFieldRange_after_setFieldRange_8_1GA:
  "getFieldRange example_compass
     (setFieldRange HMC5883L_FIELDRANGE_8_1GA example_compass (example_bus 0))
   = Some HMC5883L_FIELDRANGE_2_5GA"
  by (simp add: getFieldRange_def setFieldRange_def readByte_def writeByte_def
      HMC5883L_REGISTER_CONFIG_B_def FieldRange_of_def example_defs)

section \<open>The calibration read back\<close>

lemma getCalibration_bytes:
  "length ptr \<le> length obj \<Longrightarrow>
   take (length ptr) (getCalibration ptr obj) = ptr \<and>
   drop (length ptr) (getCalibration ptr obj) = drop (length ptr) obj \<and>
   length (getCalibration ptr obj) = length obj"
  by (simp add: getCalibration_def memcpy_def)

text \<open>
  Claim C1. \<^verbatim>\<open>getCalibration\<close> should store the compass's six bounds and declination
  into the caller's record. The source function copies the bytes of its own pointer
  parameter instead and never reads the compass: called with the address \<open>0x20002010\<close>
  (four bytes, little endian) of a zeroed record of 40 bytes, it leaves the four address
  bytes at the start of the record and the other 36 bytes zero.
\<close>

theorem getCalibration_copies_pointer:
  "getCalibration [0x10, 0x20, 0x00, 0x20] (replicate 40 0) =
     [0x10, 0x20, 0x00, 0x20] @ replicate 36 0"
  by (simp add: getCalibration_def memcpy_def flip: replicate_add)

end
